theory Spec2Isabelle
  imports Complex_Main "HOL-Library.Log_Nat"
begin

section \<open>Strings of the standard library\<close>

text \<open>
  A Go string is a sequence of bytes, here a \<^typ>\<open>string\<close>. \<open>strings.ToLower\<close> is
  library code with two paths. On a string of ASCII bytes only it works byte by byte: the
  letters \<open>A\<close> to \<open>Z\<close> move to \<open>a\<close> to \<open>z\<close>, every other byte stays. On a string with a
  byte from 0x80 upwards it decodes the runes, maps each through the Unicode tables and
  encodes the result (\<open>strings.Map(unicode.ToLower, s)\<close>, which also rewrites bytes that
  are not valid UTF-8). The first path is written out. The second is the library's and its
  tables are not given here: it is the parameter \<open>unicodeLower\<close> of \<open>ToLower\<close> and of every
  function that lowercases, and what is proved holds whatever that function is.
\<close>

definition lowerByte :: "char \<Rightarrow> char" where
  "lowerByte c =
     (if 65 \<le> (of_char c :: nat) \<and> (of_char c :: nat) \<le> 90
      then char_of ((of_char c :: nat) + 32) else c)"

definition isASCII :: "string \<Rightarrow> bool" where
  "isASCII s = list_all (\<lambda>c. (of_char c :: nat) < 128) s"

definition ToLower :: "(string \<Rightarrow> string) \<Rightarrow> string \<Rightarrow> string" where
  "ToLower unicodeLower s = (if isASCII s then map lowerByte s else unicodeLower s)"

text \<open>
  \<open>path.Ext\<close> scans from the last byte towards the first, stops at a slash, and returns
  the suffix that starts at the first dot it meets. \<open>Ext_loop p n\<close> is the loop with
  index \<open>i = n - 1\<close> next to be read; \<open>n = 0\<close> is the loop's exit \<open>i < 0\<close>.
\<close>

fun Ext_loop :: "string \<Rightarrow> nat \<Rightarrow> string" where
  "Ext_loop p 0 = []"
| "Ext_loop p (Suc i) =
     (if p ! i = CHR ''/'' then []
      else if p ! i = CHR ''.'' then drop i p
      else Ext_loop p i)"

definition Ext :: "string \<Rightarrow> string" where
  "Ext p = Ext_loop p (length p)"

section \<open>The application: template compilers and compiled templates (app.go)\<close>

text \<open>
  A \<open>TemplateCompiler\<close> is an interface with the single method \<open>Compile\<close>, which
  returns a \<open>Templater\<close> together with an error; the error is \<open>None\<close> for Go's \<open>nil\<close>.
  The types of templaters and of errors are left open.
\<close>

type_synonym ('t, 'e) TemplateCompiler = "string \<Rightarrow> 't \<times> 'e option"

text \<open>
  The two maps of \<open>App\<close>. A Go map may be \<open>nil\<close> (the value of the field in a fresh
  \<open>new(App)\<close>): reading a nil map finds nothing, storing into it panics. So each map is an
  option, \<open>None\<close> for nil. A value stored under an extension is an interface value and may
  itself be nil, the inner \<open>None\<close>. The embedded server, \<open>Env\<close> and \<open>H\<close> play no part in
  the operations below; the two locks order concurrent callers and are not modelled, every
  operation here runs alone.
\<close>

record ('t, 'e) App =
  compilers :: "(string \<rightharpoonup> ('t, 'e) TemplateCompiler option) option"
  templates :: "(string \<rightharpoonup> 't) option"

datatype panic = NilMapAssignment | NilDereference | TypeAssertion

definition map_get :: "('k \<rightharpoonup> 'v) option \<Rightarrow> 'k \<Rightarrow> 'v option" where
  "map_get m k = (case m of None \<Rightarrow> None | Some f \<Rightarrow> f k)"

definition RegisterTemplateCompiler ::
  "('t, 'e) App \<Rightarrow> string \<Rightarrow> ('t, 'e) TemplateCompiler option \<Rightarrow> panic + ('t, 'e) App" where
  "RegisterTemplateCompiler this ext c =
     (case compilers this of
        None \<Rightarrow> Inl NilMapAssignment
      | Some m \<Rightarrow> Inr (this\<lparr>compilers := Some (m(ext \<mapsto> c))\<rparr>))"

definition CompileTemplates :: "('t, 'e) App \<Rightarrow> string \<Rightarrow> bool \<Rightarrow> 'e option" where
  "CompileTemplates this path recursive = None"

definition addTemplater ::
  "(string \<Rightarrow> string) \<Rightarrow> ('t, 'e) App \<Rightarrow> string \<Rightarrow> 't \<Rightarrow> panic + ('t, 'e) App" where
  "addTemplater ul this p t =
     (case templates this of
        None \<Rightarrow> Inl NilMapAssignment
      | Some m \<Rightarrow> Inr (this\<lparr>templates := Some (m(ToLower ul p \<mapsto> t))\<rparr>))"

text \<open>
  \<open>compileTemplate\<close> returns the error of the Go function (\<open>None\<close> for nil) and the
  application as it is afterwards, or the panic that ended the call. It lowercases the path
  before it calls \<open>addTemplater\<close>, which lowercases what it is given once more.
\<close>

definition compileTemplate ::
  "(string \<Rightarrow> string) \<Rightarrow> ('t, 'e) App \<Rightarrow> string \<Rightarrow> panic + ('e option \<times> ('t, 'e) App)" where
  "compileTemplate ul this p =
     (let ext = ToLower ul (Ext p) in
      case map_get (compilers this) ext of
        None \<Rightarrow> Inr (None, this)
      | Some None \<Rightarrow> Inl NilDereference
      | Some (Some c) \<Rightarrow>
          (case c p of
             (t, Some err) \<Rightarrow> Inr (Some err, this)
           | (t, None) \<Rightarrow>
               (case addTemplater ul this (ToLower ul p) t of
                  Inl pn \<Rightarrow> Inl pn
                | Inr this' \<Rightarrow> Inr (None, this'))))"

section \<open>Numbers as the formatter prints them\<close>

text \<open>
  The arguments handed to the log sink are interface values of three dynamic types: the
  tokens of log.go produce a Go \<open>string\<close>, an \<open>int\<close> (the status code) or a \<open>float64\<close>
  (the response time). A finite \<open>float64\<close> is a rational number and is kept as one.
\<close>

datatype tokval = VString string | VInt int | VFloat rat

definition digit :: "nat \<Rightarrow> char" where
  "digit d = char_of (48 + d)"

fun digits10 :: "nat \<Rightarrow> string" where
  "digits10 n = (if n < 10 then [digit n] else digits10 (n div 10) @ [digit (n mod 10)])"

declare digits10.simps [simp del]

definition itoa :: "int \<Rightarrow> string" where
  "itoa i = (if i < 0 then CHR ''-'' # digits10 (nat (- i)) else digits10 (nat i))"

text \<open>
  Rounding to the nearest integer, ties to the even one: the rounding of IEEE 754
  arithmetic and of \<open>strconv\<close> when it cuts a decimal expansion.
\<close>

definition round_half_even :: "rat \<Rightarrow> int" where
  "round_half_even q =
     (let f = \<lfloor>q\<rfloor>; d = q - of_int f
      in if d < 1 / 2 then f
         else if 1 / 2 < d then f + 1
         else if even f then f else f + 1)"

definition pow2 :: "int \<Rightarrow> rat" where
  "pow2 e = (if 0 \<le> e then 2 ^ nat e else 1 / 2 ^ nat (- e))"

text \<open>
  \<open>ilog2 q\<close> is the exponent \<open>k\<close> with \<open>2 ^ k \<le> q < 2 ^ (k + 1)\<close> of a positive rational,
  found from the bit lengths of its numerator and denominator.
\<close>

definition ilog2 :: "rat \<Rightarrow> int" where
  "ilog2 q =
     (let (a, b) = quotient_of q; k = bitlen a - bitlen b
      in if pow2 k \<le> q then k else k - 1)"

text \<open>
  \<open>float64 q\<close> is the binary64 number nearest to \<open>q\<close>: 53 significant bits, ties to even.
  The values that occur below (seconds and fractions of a second of an \<open>int64\<close> count of
  nanoseconds) are zero or lie far inside the range of normal numbers, so neither overflow
  nor gradual underflow is written out.
\<close>

definition float64 :: "rat \<Rightarrow> rat" where
  "float64 q =
     (if q = 0 then 0
      else (let e = ilog2 \<bar>q\<bar> - 52 in of_int (round_half_even (q / pow2 e)) * pow2 e))"

text \<open>
  The verb \<open>%.3f\<close> on a \<open>float64\<close>: the exact value rounded to three decimals, ties to
  even, the sign taken from the number itself.
\<close>

definition fmt_f3 :: "rat \<Rightarrow> string" where
  "fmt_f3 q =
     (let m = nat (round_half_even (\<bar>q\<bar> * 1000))
      in (if q < 0 then ''-'' else []) @ digits10 (m div 1000) @ ''.'' @
         [digit (m div 100 mod 10), digit (m div 10 mod 10), digit (m mod 10)])"

text \<open>
  The fragment of \<open>fmt.Sprintf\<close> that the predefined formats use: literal text, \<open>%%\<close>,
  \<open>%s\<close> on a string, \<open>%d\<close> on an int and \<open>%.3f\<close> on a float64, with exactly one argument
  for each verb. On any other directive, on a verb applied to a value of another type and
  on a wrong number of arguments the library prints a diagnostic of its own inside the
  line; that text is outside this fragment and the result is \<open>None\<close>.
\<close>

fun Sprintf :: "string \<Rightarrow> tokval list \<Rightarrow> string option" where
  "Sprintf [] as = (if as = [] then Some [] else None)"
| "Sprintf (c # cs) as =
     (if c \<noteq> CHR ''%'' then map_option (Cons c) (Sprintf cs as)
      else (case cs of
              [] \<Rightarrow> None
            | v # rest \<Rightarrow>
                if v = CHR ''%'' then map_option (Cons v) (Sprintf rest as)
                else if v = CHR ''s'' then
                  (case as of
                     VString x # as' \<Rightarrow> map_option (append x) (Sprintf rest as')
                   | _ \<Rightarrow> None)
                else if v = CHR ''d'' then
                  (case as of
                     VInt i # as' \<Rightarrow> map_option (append (itoa i)) (Sprintf rest as')
                   | _ \<Rightarrow> None)
                else if take 3 cs = ''.3f'' then
                  (case as of
                     VFloat q # as' \<Rightarrow> map_option (append (fmt_f3 q)) (Sprintf (drop 3 cs) as')
                   | _ \<Rightarrow> None)
                else None))"

section \<open>Time\<close>

text \<open>
  A \<open>time.Time\<close> is a count of nanoseconds and a \<open>Duration\<close> is an \<open>int64\<close> of
  nanoseconds. \<open>Sub\<close> saturates at the ends of \<open>int64\<close>. \<open>Seconds\<close> divides as Go does,
  truncating towards zero, and adds the two parts in \<open>float64\<close> arithmetic.
\<close>

definition Sub :: "int \<Rightarrow> int \<Rightarrow> int" where
  "Sub t u = max (- (2 ^ 63)) (min (2 ^ 63 - 1) (t - u))"

definition quot :: "int \<Rightarrow> int \<Rightarrow> int" where
  "quot a b = sgn a * sgn b * (\<bar>a\<bar> div \<bar>b\<bar>)"

definition rem :: "int \<Rightarrow> int \<Rightarrow> int" where
  "rem a b = a - b * quot a b"

definition Seconds :: "int \<Rightarrow> rat" where
  "Seconds d =
     (let sec = quot d 1000000000; nsec = rem d 1000000000
      in float64 (float64 (of_int sec) + float64 (float64 (of_int nsec) / 1000000000)))"

section \<open>Headers\<close>

text \<open>
  An \<open>http.Header\<close> maps a canonical key to its list of values. \<open>Get\<close> canonicalises the
  key it is given (first letter and every letter after a hyphen in upper case, the others
  in lower case, provided that every byte is a token byte) and returns the first value, or
  the empty string.
\<close>

type_synonym Header = "string \<rightharpoonup> string list"

definition validHeaderFieldByte :: "char \<Rightarrow> bool" where
  "validHeaderFieldByte c =
     (c \<in> set ''!#$%&*+-.^_|~0123456789abcdefghijklmnopqrstuvwxyzABCDEFGHIJKLMNOPQRSTUVWXYZ''
      \<or> c = CHR 0x27 \<or> c = CHR 0x60)"

definition upperByte :: "char \<Rightarrow> char" where
  "upperByte c =
     (if 97 \<le> (of_char c :: nat) \<and> (of_char c :: nat) \<le> 122
      then char_of ((of_char c :: nat) - 32) else c)"

fun canonical :: "bool \<Rightarrow> string \<Rightarrow> string" where
  "canonical upper [] = []"
| "canonical upper (c # cs) =
     (let c' = (if upper then upperByte c else lowerByte c)
      in c' # canonical (c' = CHR ''-'') cs)"

definition CanonicalMIMEHeaderKey :: "string \<Rightarrow> string" where
  "CanonicalMIMEHeaderKey k = (if list_all validHeaderFieldByte k then canonical True k else k)"

definition Header_Get :: "Header \<Rightarrow> string \<Rightarrow> string" where
  "Header_Get h key =
     (case h (CanonicalMIMEHeaderKey key) of
        None \<Rightarrow> []
      | Some [] \<Rightarrow> []
      | Some (v # vs) \<Rightarrow> v)"

section \<open>Requests, response writers and the world they act on (handlers/log.go)\<close>

text \<open>
  The fields of \<open>http.Request\<close> that the logger reads. \<open>URL\<close> is the text that
  \<open>r.URL.String()\<close> returns.
\<close>

record Request =
  Method :: string
  URL :: string
  ProtoMajor :: int
  ProtoMinor :: int
  Header :: Header
  RemoteAddr :: string

definition Referer :: "Request \<Rightarrow> string" where
  "Referer r = Header_Get (Header r) ''Referer''"

definition UserAgent :: "Request \<Rightarrow> string" where
  "UserAgent r = Header_Get (Header r) ''User-Agent''"

text \<open>
  An \<open>http.ResponseWriter\<close> is an interface value. Its dynamic type is one of
  \<^item> a writer of some other package that does not reveal what it wraps (\<open>Plain\<close>),
  \<^item> a writer of some other package that implements \<open>WrappedWriter\<close> (\<open>Wrapper\<close>),
  \<^item> a pointer to a \<open>statusResponseWriter\<close> (\<open>StatusW\<close>).
  Writers of other packages carry a number that identifies them. A
  \<open>statusResponseWriter\<close> is built with its embedded writer and that field is never
  assigned again, so the embedded writer is part of the pointer's value; the field \<open>code\<close>
  is assigned by the methods and lives in a store, at the address that the pointer holds.
\<close>

type_synonym addr = nat

datatype ResponseWriter =
    Plain nat
  | Wrapper nat ResponseWriter
  | StatusW addr ResponseWriter

type_synonym statusResponseWriter = "addr \<times> ResponseWriter"

definition iface :: "statusResponseWriter \<Rightarrow> ResponseWriter" where
  "iface w = StatusW (fst w) (snd w)"

datatype call = CallWriteHeader int | CallWrite string

datatype sink = StdLogger | OptsLogger nat

record log_entry =
  sink :: sink
  format :: string
  args :: "tokval list"

text \<open>
  The world outside the functions of log.go:
  \<^item> \<open>codes\<close>, the field \<open>code\<close> of every \<open>statusResponseWriter\<close>, by address, and
    \<open>next_addr\<close>, the next address to allocate;
  \<^item> \<open>calls\<close>, the calls that writers of other packages have received, oldest first;
    \<open>headers\<close>, the header map each of them returns from \<open>Header()\<close>; \<open>write_result\<close>,
    what each of them returns from \<open>Write\<close>;
  \<^item> \<open>logged\<close>, the calls of \<open>Printf\<close> received by the loggers, oldest first;
  \<^item> \<open>clock\<close>, the successive readings of \<open>time.Now()\<close>, and \<open>ticks\<close>, how many have been
    taken; \<open>time_Format\<close>, the library's rendering of a time under a layout.
\<close>

record world =
  codes :: "addr \<Rightarrow> int"
  next_addr :: addr
  calls :: "(nat \<times> call) list"
  headers :: "nat \<Rightarrow> Header"
  write_result :: "nat \<Rightarrow> string \<Rightarrow> int \<times> string option"
  logged :: "log_entry list"
  clock :: "nat \<Rightarrow> int"
  ticks :: nat
  time_Format :: "int \<Rightarrow> string \<Rightarrow> string"

definition time_Now :: "world \<Rightarrow> int \<times> world" where
  "time_Now s = (clock s (ticks s), s\<lparr>ticks := Suc (ticks s)\<rparr>)"

definition Printf :: "sink \<Rightarrow> string \<Rightarrow> tokval list \<Rightarrow> world \<Rightarrow> world" where
  "Printf l f as s = s\<lparr>logged := logged s @ [\<lparr>sink = l, format = f, args = as\<rparr>]\<rparr>"

text \<open>
  The three methods of the interface. The \<open>StatusW\<close> equations are the methods of
  \<open>statusResponseWriter\<close>: \<open>WriteHeader\<close> and \<open>Write\<close> as written in log.go, \<open>Header\<close>
  promoted from the embedded writer. A writer of another package records the call.
\<close>

fun WriteHeader :: "ResponseWriter \<Rightarrow> int \<Rightarrow> world \<Rightarrow> world" where
  "WriteHeader (Plain n) c s = s\<lparr>calls := calls s @ [(n, CallWriteHeader c)]\<rparr>"
| "WriteHeader (Wrapper n inner) c s = s\<lparr>calls := calls s @ [(n, CallWriteHeader c)]\<rparr>"
| "WriteHeader (StatusW a inner) c s = WriteHeader inner c (s\<lparr>codes := (codes s)(a := c)\<rparr>)"

definition StatusOK :: int where
  "StatusOK = 200"

fun Write :: "ResponseWriter \<Rightarrow> string \<Rightarrow> world \<Rightarrow> (int \<times> string option) \<times> world" where
  "Write (Plain n) d s = (write_result s n d, s\<lparr>calls := calls s @ [(n, CallWrite d)]\<rparr>)"
| "Write (Wrapper n inner) d s = (write_result s n d, s\<lparr>calls := calls s @ [(n, CallWrite d)]\<rparr>)"
| "Write (StatusW a inner) d s =
     (if codes s a = 0
      then Write inner d (s\<lparr>codes := (codes s)(a := StatusOK)\<rparr>)
      else Write inner d s)"

fun Header_of :: "ResponseWriter \<Rightarrow> world \<Rightarrow> Header" where
  "Header_of (Plain n) s = headers s n"
| "Header_of (Wrapper n inner) s = headers s n"
| "Header_of (StatusW a inner) s = Header_of inner s"

definition WrappedWriter :: "statusResponseWriter \<Rightarrow> ResponseWriter" where
  "WrappedWriter w = snd w"

text \<open>The composite literal \<open>&statusResponseWriter{w, c}\<close>: a fresh cell for the code.\<close>

definition new_statusResponseWriter ::
  "ResponseWriter \<Rightarrow> int \<Rightarrow> world \<Rightarrow> statusResponseWriter \<times> world" where
  "new_statusResponseWriter w c s =
     ((next_addr s, w),
      s\<lparr>codes := (codes s)(next_addr s := c), next_addr := Suc (next_addr s)\<rparr>)"

text \<open>
  Modelled from the spec: \<open>GetResponseWriter\<close> and the \<open>WrapWriter\<close> interface, which
  log.go calls and whose source file is not among the sources. The search tests the
  outermost writer against the predicate; if the test fails and the writer reveals an inner
  writer, it goes on with the inner writer; it answers "not found" at a writer that reveals
  none.
\<close>

fun GetResponseWriter :: "ResponseWriter \<Rightarrow> (ResponseWriter \<Rightarrow> bool) \<Rightarrow> ResponseWriter option" where
  "GetResponseWriter (Plain n) p = (if p (Plain n) then Some (Plain n) else None)"
| "GetResponseWriter (Wrapper n inner) p =
     (if p (Wrapper n inner) then Some (Wrapper n inner) else GetResponseWriter inner p)"
| "GetResponseWriter (StatusW a inner) p =
     (if p (StatusW a inner) then Some (StatusW a inner) else GetResponseWriter inner p)"

text \<open>The type assertion \<open>tst.(*statusResponseWriter)\<close> with the comma-ok form.\<close>

fun is_statusResponseWriter :: "ResponseWriter \<Rightarrow> bool" where
  "is_statusResponseWriter (StatusW a inner) = True"
| "is_statusResponseWriter w = False"

text \<open>
  \<open>getStatusWriter\<close>: the second type assertion has no comma-ok form and would panic on a
  writer of another type.
\<close>

definition getStatusWriter :: "ResponseWriter \<Rightarrow> panic + statusResponseWriter option" where
  "getStatusWriter w =
     (case GetResponseWriter w is_statusResponseWriter of
        Some (StatusW a inner) \<Rightarrow> Inr (Some (a, inner))
      | Some other \<Rightarrow> Inl TypeAssertion
      | None \<Rightarrow> Inr None)"

section \<open>The logging handler (handlers/log.go)\<close>

definition Ldefault :: string where "Ldefault = ''_default_''"
definition Lshort :: string where "Lshort = ''_short_''"
definition Ltiny :: string where "Ltiny = ''_tiny_''"

text \<open>
  The token parser for headers, the regular expression \<^verbatim>\<open>^(req|res)\[([^\]]+)\]$\<close>.
  \<open>FindStringSubmatch\<close> returns the whole match and the two groups, or nil (the empty
  list) when the text does not match: the text matches when it is \<open>req\<close> or \<open>res\<close>, an
  opening bracket, one or more bytes other than a closing bracket, and a closing bracket.
\<close>

definition rxHeaders_FindStringSubmatch :: "string \<Rightarrow> string list" where
  "rxHeaders_FindStringSubmatch t =
     (let dir = take 3 t; rest = drop 3 t; name = butlast (drop 1 rest)
      in if (dir = ''req'' \<or> dir = ''res'') \<and> 3 \<le> length rest
            \<and> hd rest = CHR ''['' \<and> last rest = CHR '']'' \<and> CHR '']'' \<notin> set name
         then [t, dir, name] else [])"

text \<open>The lookup table for predefined formats: a format string and its tokens.\<close>

definition predefFormats :: "string \<rightharpoonup> string \<times> string list" where
  \<open>predefFormats =
     [Ldefault \<mapsto>
        (''%s - - [%s] "%s %s HTTP/%s" %d %s "%s" "%s"'',
         [''remote-addr'', ''date'', ''method'', ''url'', ''http-version'', ''status'',
          ''res[Content-Length]'', ''referrer'', ''user-agent'']),
      Lshort \<mapsto>
        (''%s - %s %s HTTP/%s %d %s - %.3f s'',
         [''remote-addr'', ''method'', ''url'', ''http-version'', ''status'',
          ''res[Content-Length]'', ''response-time'']),
      Ltiny \<mapsto>
        (''%s %s %d %s - %.3f s'',
         [''method'', ''url'', ''status'', ''res[Content-Length]'', ''response-time''])]\<close>

text \<open>
  The options. \<open>Logger\<close> is a pointer, \<open>None\<close> for nil. A custom token is a function of the
  writer and the request; it reads the world and is taken to have no effect of its own. A
  name may be bound to a nil function, the inner \<open>None\<close>. The map is only ever read, and a
  nil map reads as the empty one.
\<close>

record LogOptions =
  Logger :: "nat option"
  Format :: string
  Tokens :: "string list"
  CustomTokens :: "string \<rightharpoonup> (ResponseWriter \<Rightarrow> Request \<Rightarrow> world \<Rightarrow> string) option"
  Immediate :: bool
  DateFormat :: string

definition RFC3339 :: string where
  "RFC3339 = ''2006-01-02T15:04:05Z07:00''"

definition NewLogOptions :: "nat option \<Rightarrow> string \<Rightarrow> string list \<Rightarrow> LogOptions" where
  "NewLogOptions l ft tok =
     \<lparr>Logger = l, Format = ft, Tokens = tok, CustomTokens = Map.empty,
      Immediate = False, DateFormat = RFC3339\<rparr>"

text \<open>
  \<open>getPredefinedTokenValue\<close> returns the value of a predefined token, or \<open>None\<close> for the Go
  result \<open>(nil, false)\<close>. Reading the clock is its only effect.
\<close>

definition getPredefinedTokenValue ::
  "string \<Rightarrow> statusResponseWriter \<Rightarrow> Request \<Rightarrow> int \<Rightarrow> LogOptions \<Rightarrow> world
     \<Rightarrow> tokval option \<times> world" where
  "getPredefinedTokenValue t w r st opts s =
     (if t = ''http-version'' then
        (Some (VString (itoa (ProtoMajor r) @ ''.'' @ itoa (ProtoMinor r))), s)
      else if t = ''response-time'' then
        (let (now, s') = time_Now s in (Some (VFloat (Seconds (Sub now st))), s'))
      else if t = ''remote-addr'' then (Some (VString (RemoteAddr r)), s)
      else if t = ''date'' then
        (let (now, s') = time_Now s
         in (Some (VString (time_Format s now (DateFormat opts))), s'))
      else if t = ''method'' then (Some (VString (Method r)), s)
      else if t = ''url'' then (Some (VString (URL r)), s)
      else if t = ''referrer'' \<or> t = ''referer'' then (Some (VString (Referer r)), s)
      else if t = ''user-agent'' then (Some (VString (UserAgent r)), s)
      else if t = ''status'' then (Some (VInt (codes s (fst w))), s)
      else (let mtch = rxHeaders_FindStringSubmatch t
            in if 2 < length mtch then
                 (if mtch ! 1 = ''req''
                  then (Some (VString (Header_Get (Header r) (mtch ! 2))), s)
                  else (Some (VString (Header_Get (Header_of (iface w) s) (mtch ! 2))), s))
               else (None, s)))"

text \<open>The body of the loop of \<open>logRequest\<close>: the argument for one token.\<close>

definition tokenArg ::
  "string \<Rightarrow> statusResponseWriter \<Rightarrow> Request \<Rightarrow> int \<Rightarrow> LogOptions \<Rightarrow> world
     \<Rightarrow> tokval \<times> world" where
  "tokenArg t w r st opts s =
     (case getPredefinedTokenValue t w r st opts s of
        (Some v, s') \<Rightarrow> (v, s')
      | (None, s') \<Rightarrow>
          (case CustomTokens opts t of
             Some (Some f) \<Rightarrow> (VString (f (iface w) r s'), s')
           | _ \<Rightarrow> (VString ''?'', s')))"

text \<open>The loop over the tokens, filling \<open>args\<close> from index 0 upwards.\<close>

fun tokenArgs ::
  "string list \<Rightarrow> statusResponseWriter \<Rightarrow> Request \<Rightarrow> int \<Rightarrow> LogOptions \<Rightarrow> world
     \<Rightarrow> tokval list \<times> world" where
  "tokenArgs [] w r st opts s = ([], s)"
| "tokenArgs (t # ts) w r st opts s =
     (let (v, s') = tokenArg t w r st opts s;
          (vs, s'') = tokenArgs ts w r st opts s'
      in (v # vs, s''))"

definition logRequest ::
  "statusResponseWriter \<Rightarrow> Request \<Rightarrow> int \<Rightarrow> LogOptions \<Rightarrow> world \<Rightarrow> world" where
  "logRequest w r st opts s =
     (let fn = (case Logger opts of None \<Rightarrow> StdLogger | Some l \<Rightarrow> OptsLogger l);
          (fmt, toks) = (case predefFormats (Format opts) of
                           Some v \<Rightarrow> (fst v, snd v)
                         | None \<Rightarrow> (Format opts, Tokens opts));
          (as, s') = tokenArgs toks w r st opts s
      in Printf fn fmt as s')"

text \<open>
  A handler serves a request through a writer. It acts on the world and either returns or
  panics.
\<close>

datatype outcome = Returned | Panicked

type_synonym Handler = "ResponseWriter \<Rightarrow> Request \<Rightarrow> world \<Rightarrow> outcome \<times> world"

text \<open>
  \<open>LogHandler\<close>. The deferred call of \<open>logRequest\<close> has its arguments fixed at the
  \<open>defer\<close> statement and runs when the function ends, whether the wrapped handler returned
  or panicked; a panic then goes on to the caller.
\<close>

definition LogHandler :: "Handler \<Rightarrow> LogOptions \<Rightarrow> Handler" where
  "LogHandler h opts w r s =
     (case getStatusWriter w of
        Inl pn \<Rightarrow> (Panicked, s)
      | Inr (Some found) \<Rightarrow> h w r s
      | Inr None \<Rightarrow>
          (let (st, s1) = time_Now s;
               (stw, s2) = new_statusResponseWriter w 0 s1
           in if Immediate opts
              then h (iface stw) r (logRequest stw r st opts s2)
              else (let (out, s3) = h (iface stw) r s2
                    in (out, logRequest stw r st opts s3))))"

section \<open>Reading the log\<close>

text \<open>
  The text that a call of \<open>Printf\<close> formats, inside the fragment above. The logger writes
  it as one line, after the prefix and the time stamp of its own configuration.
\<close>

definition render :: "log_entry \<Rightarrow> string option" where
  "render e = Sprintf (format e) (args e)"

text \<open>The names that the \<open>switch\<close> of \<open>getPredefinedTokenValue\<close> knows.\<close>

definition switchTokens :: "string list" where
  "switchTokens =
     [''http-version'', ''response-time'', ''remote-addr'', ''date'', ''method'', ''url'',
      ''referrer'', ''referer'', ''user-agent'', ''status'']"

text \<open>How many times the resolution of a token reads the clock.\<close>

definition readings :: "string \<Rightarrow> nat" where
  "readings t = (if t = ''response-time'' \<or> t = ''date'' then 1 else 0)"

section \<open>Chains and sequences of calls\<close>

text \<open>
  The cells of the \<open>statusResponseWriter\<close>s of a chain. A chain is built by wrapping, each
  wrapper around a writer that exists already, so no cell occurs twice in it.
\<close>

fun cells :: "ResponseWriter \<Rightarrow> addr set" where
  "cells (Plain n) = {}"
| "cells (Wrapper n inner) = cells inner"
| "cells (StatusW a inner) = insert a (cells inner)"

text \<open>What a handler does to its writer: a sequence of calls, made in order.\<close>

fun run_calls :: "ResponseWriter \<Rightarrow> call list \<Rightarrow> world \<Rightarrow> world" where
  "run_calls w [] s = s"
| "run_calls w (CallWriteHeader c # cs) s = run_calls w cs (WriteHeader w c s)"
| "run_calls w (CallWrite d # cs) s = run_calls w cs (snd (Write w d s))"

section \<open>Sample data\<close>

text \<open>
  The Kelvin sign, U+212A, in UTF-8: an upper-case letter outside ASCII whose lower case is
  the ASCII letter \<open>k\<close>. \<open>sample_unicodeLower\<close> is a lowering that knows this one letter
  beyond ASCII.
\<close>

definition kelvin_sign :: string where
  "kelvin_sign = [CHR 0xE2, CHR 0x84, CHR 0xAA]"

fun sample_unicodeLower :: "string \<Rightarrow> string" where
  "sample_unicodeLower (a # b # c # rest) =
     (if [a, b, c] = [CHR 0xE2, CHR 0x84, CHR 0xAA] then CHR ''k'' # sample_unicodeLower rest
      else lowerByte a # sample_unicodeLower (b # c # rest))"
| "sample_unicodeLower (a # rest) = lowerByte a # sample_unicodeLower rest"
| "sample_unicodeLower [] = []"

text \<open>
  A compiler that fails on two files and succeeds on the others, and an application that
  has it registered for \<open>.amber\<close> and for \<open>.k\<close>.
\<close>

definition sample_compiler :: "(string, string) TemplateCompiler" where
  "sample_compiler f =
     (if f = ''views/broken.amber'' \<or> f = ''broken.'' @ kelvin_sign
      then ([], Some ''parse error'')
      else (''compiled:'' @ f, None))"

definition sample_app :: "(string, string) App" where
  "sample_app =
     \<lparr>compilers = Some [''.amber'' \<mapsto> Some sample_compiler, ''.k'' \<mapsto> Some sample_compiler],
      templates = Some Map.empty\<rparr>"

text \<open>
  A world with one writer of another package, number 0, whose header map holds a content
  length, whose \<open>Write\<close> accepts every byte, and a clock that advances by two milliseconds
  from one reading to the next.
\<close>

definition sample_world :: world where
  "sample_world =
     \<lparr>codes = (\<lambda>a. 0), next_addr = 0, calls = [],
      headers = (\<lambda>n. [''Content-Length'' \<mapsto> [''5'']]),
      write_result = (\<lambda>n d. (int (length d), None)),
      logged = [],
      clock = (\<lambda>k. 1700000000000000000 + 2000000 * int k), ticks = 0,
      time_Format = (\<lambda>t layout. ''2024-01-01T00:00:00Z'')\<rparr>"

text \<open>Two requests, and the options of a logger with a literal format.\<close>

definition sample_get :: Request where
  "sample_get =
     \<lparr>Method = ''GET'', URL = ''/x'', ProtoMajor = 1, ProtoMinor = 1,
      Header = [''User-Agent'' \<mapsto> [''curl'']], RemoteAddr = ''127.0.0.1''\<rparr>"

definition sample_post :: Request where
  "sample_post =
     \<lparr>Method = ''POST'', URL = ''/a'', ProtoMajor = 1, ProtoMinor = 1,
      Header = [''User-Agent'' \<mapsto> [''curl'']], RemoteAddr = ''127.0.0.1''\<rparr>"

definition sample_opts :: LogOptions where
  "sample_opts = NewLogOptions (Some 7) ''%s %s -> %d'' [''method'', ''nope'', ''status'']"

text \<open>
  Two handlers: one answers 404 and returns, the other sets status 500 and panics.
\<close>

definition sample_handler :: Handler where
  "sample_handler w r s =
     (Returned, run_calls w [CallWriteHeader 404, CallWrite ''not found''] s)"

definition sample_panic :: Handler where
  "sample_panic w r s = (Panicked, run_calls w [CallWriteHeader 500] s)"

section \<open>Properties of template compilation\<close>







lemma Ext_sample_broken: "ToLower ul (Ext ''views/broken.amber'') = ''.amber''"
  unfolding ToLower_def by code_simp






lemma Ext_kelvin_broken: "ToLower sample_unicodeLower (Ext (''broken.'' @ kelvin_sign)) = ''.k''"
  by code_simp




text \<open>
  C9. For every path \<open>p\<close> with a compiler registered under its lowercased extension: when
  the compiler's \<open>Compile\<close> returns an error, \<open>compileTemplate\<close> returns that same error
  and the application, the templates map included, is exactly as it was.
\<close>

theorem compileTemplate_error:
  "map_get (compilers this) (ToLower ul (Ext p)) = Some (Some c) \<Longrightarrow> c p = (t, Some err) \<Longrightarrow>
     compileTemplate ul this p = Inr (Some err, this)"
  by (simp add: compileTemplate_def)

theorem compileTemplate_error_witness:
  "compileTemplate sample_unicodeLower sample_app ''views/broken.amber''
     = Inr (Some ''parse error'', sample_app) \<and>
   compileTemplate sample_unicodeLower sample_app (''broken.'' @ kelvin_sign)
     = Inr (Some ''parse error'', sample_app)"
proof -
  have some: "map_get (compilers sample_app)
                (ToLower sample_unicodeLower (Ext ''views/broken.amber''))
                = Some (Some sample_compiler)"
    by (simp add: Ext_sample_broken sample_app_def map_get_def)
  have err: "sample_compiler ''views/broken.amber'' = ([], Some ''parse error'')"
    by (simp add: sample_compiler_def)
  have somek: "map_get (compilers sample_app)
                 (ToLower sample_unicodeLower (Ext (''broken.'' @ kelvin_sign)))
                 = Some (Some sample_compiler)"
    unfolding Ext_kelvin_broken by (simp add: sample_app_def map_get_def)
  have errk: "sample_compiler (''broken.'' @ kelvin_sign) = ([], Some ''parse error'')"
    by (simp add: sample_compiler_def)
  show ?thesis
    using compileTemplate_error [OF some err] compileTemplate_error [OF somek errk]
    by (rule conjI)
qed

section \<open>Properties of the status writer\<close>

lemma WriteHeader_codes_other: "a \<notin> cells w \<Longrightarrow> codes (WriteHeader w c s) a = codes s a"
  by (induction w arbitrary: s) auto

lemma Write_codes_other: "a \<notin> cells w \<Longrightarrow> codes (snd (Write w d s)) a = codes s a"
  by (induction w arbitrary: s) auto

text \<open>
  C2. The code of a \<open>statusResponseWriter\<close> is 0 when it has just been built with code 0,
  as \<open>LogHandler\<close> builds it. A \<open>Write\<close> made while the code is 0 sets the code to 200
  and then hands the same bytes to the embedded writer; a \<open>Write\<close> made while the code is
  not 0 hands the bytes to the embedded writer and does nothing else. In both cases the
  code read after the call is as said: 200, or the code as it was.
\<close>

theorem Write_default_status:
  "codes (snd (new_statusResponseWriter w 0 s)) (fst (fst (new_statusResponseWriter w 0 s))) = 0 \<and>
   (codes s a = 0 \<longrightarrow>
      Write (StatusW a inner) d s = Write inner d (s\<lparr>codes := (codes s)(a := 200)\<rparr>)) \<and>
   (codes s a = 0 \<and> a \<notin> cells inner \<longrightarrow>
      codes (snd (Write (StatusW a inner) d s)) a = 200) \<and>
   (codes s a \<noteq> 0 \<longrightarrow> Write (StatusW a inner) d s = Write inner d s) \<and>
   (codes s a \<noteq> 0 \<and> a \<notin> cells inner \<longrightarrow>
      codes (snd (Write (StatusW a inner) d s)) a = codes s a)"
  by (simp add: new_statusResponseWriter_def StatusOK_def Write_codes_other)

theorem Write_default_status_witness:
  "codes sample_world 0 = 0 \<and> 0 \<notin> cells (Plain 0) \<and>
   codes (snd (Write (StatusW 0 (Plain 0)) ''hi'' sample_world)) 0 = 200 \<and>
   calls (snd (Write (StatusW 0 (Plain 0)) ''hi'' sample_world)) = [(0, CallWrite ''hi'')] \<and>
   codes (sample_world\<lparr>codes := (\<lambda>a. 404)\<rparr>) 0 \<noteq> 0 \<and>
   codes (snd (Write (StatusW 0 (Plain 0)) ''hi'' (sample_world\<lparr>codes := (\<lambda>a. 404)\<rparr>))) 0 = 404"
proof -
  have zero: "codes sample_world 0 = 0" and fresh: "0 \<notin> cells (Plain 0)"
    by (simp_all add: sample_world_def)
  have set: "codes (sample_world\<lparr>codes := (\<lambda>a. 404)\<rparr>) 0 \<noteq> 0"
    by simp
  from Write_default_status [of "Plain 0" sample_world 0 "Plain 0" "''hi''"] zero fresh
  have "codes (snd (Write (StatusW 0 (Plain 0)) ''hi'' sample_world)) 0 = 200"
    and "Write (StatusW 0 (Plain 0)) ''hi'' sample_world
           = Write (Plain 0) ''hi'' (sample_world\<lparr>codes := (codes sample_world)(0 := 200)\<rparr>)"
    by blast+
  moreover
  from Write_default_status
         [of "Plain 0" "sample_world\<lparr>codes := (\<lambda>a. 404)\<rparr>" 0 "Plain 0" "''hi''"] set fresh
  have "codes (snd (Write (StatusW 0 (Plain 0)) ''hi'' (sample_world\<lparr>codes := (\<lambda>a. 404)\<rparr>))) 0
          = codes (sample_world\<lparr>codes := (\<lambda>a. 404)\<rparr>) 0"
    by blast
  ultimately show ?thesis
    using zero fresh by (simp add: sample_world_def)
qed

lemma run_calls_append: "run_calls w (cs @ ds) s = run_calls w ds (run_calls w cs s)"
  by (induction w cs s rule: run_calls.induct) simp_all

text \<open>
  C10. \<open>WriteHeader\<close> on a \<open>statusResponseWriter\<close> stores its argument as the code and
  then calls the embedded writer, on every call and whatever the code was: the code read
  after the call is the argument, also when a \<open>Write\<close> has recorded the implicit 200
  before, and after any sequence of calls that ends with \<open>WriteHeader c\<close> the code is \<open>c\<close>.
\<close>

theorem WriteHeader_overwrites:
  "WriteHeader (StatusW a inner) c s = WriteHeader inner c (s\<lparr>codes := (codes s)(a := c)\<rparr>) \<and>
   (a \<notin> cells inner \<longrightarrow>
      codes (WriteHeader (StatusW a inner) c s) a = c \<and>
      codes (WriteHeader (StatusW a inner) c (snd (Write (StatusW a inner) d s))) a = c \<and>
      codes (run_calls (StatusW a inner) (cs @ [CallWriteHeader c]) s) a = c)"
  by (simp add: WriteHeader_codes_other run_calls_append)

theorem WriteHeader_overwrites_witness:
  "0 \<notin> cells (Plain 0) \<and>
   codes (snd (Write (StatusW 0 (Plain 0)) ''hi'' sample_world)) 0 = 200 \<and>
   codes (WriteHeader (StatusW 0 (Plain 0)) 404
            (snd (Write (StatusW 0 (Plain 0)) ''hi'' sample_world))) 0 = 404 \<and>
   codes (run_calls (StatusW 0 (Plain 0))
            [CallWriteHeader 500, CallWrite ''hi'', CallWriteHeader 404] sample_world) 0 = 404"
proof -
  have fresh: "0 \<notin> cells (Plain 0)"
    by simp
  from WriteHeader_overwrites
         [of 0 "Plain 0" 404 sample_world "''hi''" "[CallWriteHeader 500, CallWrite ''hi'']"]
       fresh
  have "codes (WriteHeader (StatusW 0 (Plain 0)) 404
                 (snd (Write (StatusW 0 (Plain 0)) ''hi'' sample_world))) 0 = 404"
    and "codes (run_calls (StatusW 0 (Plain 0))
                 ([CallWriteHeader 500, CallWrite ''hi''] @ [CallWriteHeader 404]) sample_world) 0
           = 404"
    by blast+
  moreover have "codes (snd (Write (StatusW 0 (Plain 0)) ''hi'' sample_world)) 0 = 200"
    by (simp add: sample_world_def StatusOK_def)
  ultimately show ?thesis
    using fresh by simp
qed

section \<open>Properties of the log line\<close>

lemma rx_content_length:
  "rxHeaders_FindStringSubmatch ''res[Content-Length]'' = [''res[Content-Length]'', ''res'', ''Content-Length'']"
  by code_simp

lemma tok_method: "tokenArg ''method'' w r st opts s = (VString (Method r), s)"
  by (simp add: tokenArg_def getPredefinedTokenValue_def)

lemma tok_url: "tokenArg ''url'' w r st opts s = (VString (URL r), s)"
  by (simp add: tokenArg_def getPredefinedTokenValue_def)

lemma tok_status: "tokenArg ''status'' w r st opts s = (VInt (codes s (fst w)), s)"
  by (simp add: tokenArg_def getPredefinedTokenValue_def)

lemma tok_res_content_length:
  "tokenArg ''res[Content-Length]'' w r st opts s
     = (VString (Header_Get (Header_of (iface w) s) ''Content-Length''), s)"
  by (simp add: tokenArg_def getPredefinedTokenValue_def rx_content_length)

lemma tok_response_time:
  "tokenArg ''response-time'' w r st opts s
     = (VFloat (Seconds (Sub (clock s (ticks s)) st)), s\<lparr>ticks := Suc (ticks s)\<rparr>)"
  by (simp add: tokenArg_def getPredefinedTokenValue_def time_Now_def)

lemma tokenArg_frame: "snd (tokenArg t w r st opts s) = s\<lparr>ticks := ticks s + readings t\<rparr>"
  by (simp add: tokenArg_def getPredefinedTokenValue_def time_Now_def readings_def Let_def split: option.splits)

lemma tokenArgs_frame:
  "snd (tokenArgs ts w r st opts s) = s\<lparr>ticks := ticks s + sum_list (map readings ts)\<rparr>"
proof (induction ts arbitrary: s)
  case Nil
  show ?case by simp
next
  case (Cons t ts)
  have "snd (tokenArgs (t # ts) w r st opts s)
          = snd (tokenArgs ts w r st opts (snd (tokenArg t w r st opts s)))"
    by (simp add: case_prod_unfold Let_def)
  then show ?case
    by (simp add: Cons.IH tokenArg_frame add.assoc)
qed

lemma tokenArgs_append:
  "tokenArgs (xs @ ys) w r st opts s =
     (fst (tokenArgs xs w r st opts s) @ fst (tokenArgs ys w r st opts (snd (tokenArgs xs w r st opts s))),
      snd (tokenArgs ys w r st opts (snd (tokenArgs xs w r st opts s))))"
  by (induction xs arbitrary: s) (simp_all add: case_prod_unfold Let_def)

lemma tiny_args:
  "tokenArgs [''method'', ''url'', ''status'', ''res[Content-Length]'', ''response-time''] w r st opts s
    = ([VString (Method r), VString (URL r), VInt (codes s (fst w)),
        VString (Header_Get (Header_of (iface w) s) ''Content-Length''),
        VFloat (Seconds (Sub (clock s (ticks s)) st))], s\<lparr>ticks := Suc (ticks s)\<rparr>)"
  by (simp add: tok_method tok_url tok_status tok_res_content_length tok_response_time)

lemma predef_tiny: "predefFormats ''_tiny_'' = Some (''%s %s %d %s - %.3f s'',
         [''method'', ''url'', ''status'', ''res[Content-Length]'', ''response-time''])"
  by (simp add: predefFormats_def Ldefault_def Lshort_def Ltiny_def)


lemma logRequest_eq:
  "logRequest w r st opts s =
     (let fmt = (case predefFormats (Format opts) of Some v \<Rightarrow> fst v | None \<Rightarrow> Format opts);
          toks = (case predefFormats (Format opts) of Some v \<Rightarrow> snd v | None \<Rightarrow> Tokens opts)
      in s\<lparr>ticks := ticks s + sum_list (map readings toks),
           logged := logged s @
             [\<lparr>sink = (case Logger opts of None \<Rightarrow> StdLogger | Some l \<Rightarrow> OptsLogger l),
               format = fmt, args = fst (tokenArgs toks w r st opts s)\<rparr>]\<rparr>)"
proof -
  have split: "tokenArgs toks w r st opts s
         = (fst (tokenArgs toks w r st opts s), s\<lparr>ticks := ticks s + sum_list (map readings toks)\<rparr>)"
    for toks
    by (rule prod_eqI) (simp_all add: tokenArgs_frame)
  show ?thesis
  proof (cases "predefFormats (Format opts)")
    case None
    then show ?thesis
      unfolding logRequest_def Let_def
      by (subst split) (simp add: Printf_def)
  next
    case (Some v)
    then show ?thesis
      unfolding logRequest_def Let_def
      by (subst split) (simp add: Printf_def case_prod_unfold)
  qed
qed

lemma Sprintf_tiny: "Sprintf ''%s %s %d %s - %.3f s''
   [VString ''GET'', VString ''/x'', VInt 200, VString ''5'', VFloat (Seconds 2000000)]
    = Some ''GET /x 200 5 - 0.002 s''"
  by code_simp

text \<open>
  C3. With the tiny predefined format, for a request with method \<open>GET\<close> and url \<open>/x\<close>,
  captured status 200, response header \<open>Content-Length\<close> equal to \<open>5\<close> and two milliseconds
  (0.002 seconds) between the start time and the reading of the clock, \<open>logRequest\<close> adds
  one entry to the log and the line of that entry is exactly \<open>GET /x 200 5 - 0.002 s\<close>.
\<close>

theorem tiny_line:
  assumes "Format opts = Ltiny" and "Method r = ''GET''" and "URL r = ''/x''"
    and "codes s (fst w) = 200"
    and "Header_Get (Header_of (iface w) s) ''Content-Length'' = ''5''"
    and "Sub (clock s (ticks s)) st = 2000000"
  shows "map render (logged (logRequest w r st opts s))
           = map render (logged s) @ [Some ''GET /x 200 5 - 0.002 s'']"
proof -
  have "logged (logRequest w r st opts s) = logged s @
          [\<lparr>sink = (case Logger opts of None \<Rightarrow> StdLogger | Some l \<Rightarrow> OptsLogger l),
            format = ''%s %s %d %s - %.3f s'',
            args = [VString ''GET'', VString ''/x'', VInt 200, VString ''5'',
                    VFloat (Seconds 2000000)]\<rparr>]"
    using assms by (simp add: logRequest_eq predef_tiny tiny_args Ltiny_def del: tokenArgs.simps)
  then show ?thesis
    by (simp add: render_def Sprintf_tiny del: Sprintf.simps)
qed

theorem tiny_line_witness:
  "map render (logged (logRequest (0, Plain 0) sample_get 1700000000000000000
      (NewLogOptions None Ltiny [])
      (sample_world\<lparr>codes := (\<lambda>a. 200), ticks := 1\<rparr>)))
     = [Some ''GET /x 200 5 - 0.002 s'']"
proof -
  have cl: "CanonicalMIMEHeaderKey ''Content-Length'' = ''Content-Length''"
    by code_simp
  have "map render (logged (logRequest (0, Plain 0) sample_get 1700000000000000000
      (NewLogOptions None Ltiny [])
      (sample_world\<lparr>codes := (\<lambda>a. 200), ticks := 1\<rparr>)))
     = map render (logged (sample_world\<lparr>codes := (\<lambda>a. 200), ticks := 1\<rparr>))
         @ [Some ''GET /x 200 5 - 0.002 s'']"
    by (rule tiny_line)
       (simp_all add: NewLogOptions_def sample_get_def sample_world_def iface_def Header_Get_def
          cl Sub_def)
  then show ?thesis
    by (simp add: sample_world_def)
qed


lemma Header_of_ticks: "Header_of x (s\<lparr>ticks := n\<rparr>) = Header_of x s"
  by (induction x) simp_all

lemma tok_remote_addr: "tokenArg ''remote-addr'' w r st opts s = (VString (RemoteAddr r), s)"
  by (simp add: tokenArg_def getPredefinedTokenValue_def)

lemma tok_date:
  "tokenArg ''date'' w r st opts s
     = (VString (time_Format s (clock s (ticks s)) (DateFormat opts)), s\<lparr>ticks := Suc (ticks s)\<rparr>)"
  by (simp add: tokenArg_def getPredefinedTokenValue_def time_Now_def)

lemma tok_http_version:
  "tokenArg ''http-version'' w r st opts s
     = (VString (itoa (ProtoMajor r) @ ''.'' @ itoa (ProtoMinor r)), s)"
  by (simp add: tokenArg_def getPredefinedTokenValue_def)

lemma tok_referrer: "tokenArg ''referrer'' w r st opts s = (VString (Referer r), s)"
  by (simp add: tokenArg_def getPredefinedTokenValue_def)

lemma tok_user_agent: "tokenArg ''user-agent'' w r st opts s = (VString (UserAgent r), s)"
  by (simp add: tokenArg_def getPredefinedTokenValue_def)

lemma default_args:
  "tokenArgs [''remote-addr'', ''date'', ''method'', ''url'', ''http-version'', ''status'',
              ''res[Content-Length]'', ''referrer'', ''user-agent''] w r st opts s
    = ([VString (RemoteAddr r),
        VString (time_Format s (clock s (ticks s)) (DateFormat opts)),
        VString (Method r), VString (URL r),
        VString (itoa (ProtoMajor r) @ ''.'' @ itoa (ProtoMinor r)),
        VInt (codes s (fst w)),
        VString (Header_Get (Header_of (iface w) s) ''Content-Length''),
        VString (Referer r), VString (UserAgent r)], s\<lparr>ticks := Suc (ticks s)\<rparr>)"
  by (simp add: tok_remote_addr tok_date tok_method tok_url tok_http_version tok_status
        tok_res_content_length tok_referrer tok_user_agent Header_of_ticks)

lemma predef_default: \<open>predefFormats ''_default_'' =
   Some (''%s - - [%s] "%s %s HTTP/%s" %d %s "%s" "%s"'',
         [''remote-addr'', ''date'', ''method'', ''url'', ''http-version'', ''status'',
          ''res[Content-Length]'', ''referrer'', ''user-agent''])\<close>
  by (simp add: predefFormats_def Ldefault_def Lshort_def Ltiny_def)

lemma itoa_1: "itoa 1 = ''1''"
  by code_simp

lemma Sprintf_default: \<open>Sprintf ''%s - - [%s] "%s %s HTTP/%s" %d %s "%s" "%s"''
   [VString ''127.0.0.1'', VString ''2024-01-01T00:00:00Z'', VString ''POST'', VString ''/a'',
    VString ''1.1'', VInt 404, VString ''0'', VString [], VString ''curl'']
    = Some ''127.0.0.1 - - [2024-01-01T00:00:00Z] "POST /a HTTP/1.1" 404 0 "" "curl"''\<close>
  by code_simp

text \<open>
  C4. With the default predefined format, for remote address \<open>127.0.0.1\<close>, date
  \<open>2024-01-01T00:00:00Z\<close>, method \<open>POST\<close>, url \<open>/a\<close>, protocol version 1.1, captured status
  404, response header \<open>Content-Length\<close> equal to \<open>0\<close>, an empty referrer and user agent
  \<open>curl\<close>, \<open>logRequest\<close> adds one entry to the log and the line of that entry is exactly
  \<^verbatim>\<open>127.0.0.1 - - [2024-01-01T00:00:00Z] "POST /a HTTP/1.1" 404 0 "" "curl"\<close>.
\<close>

theorem default_line:
  assumes \<open>Format opts = Ldefault\<close> and \<open>RemoteAddr r = ''127.0.0.1''\<close>
    and \<open>time_Format s (clock s (ticks s)) (DateFormat opts) = ''2024-01-01T00:00:00Z''\<close>
    and \<open>Method r = ''POST''\<close> and \<open>URL r = ''/a''\<close>
    and \<open>ProtoMajor r = 1\<close> and \<open>ProtoMinor r = 1\<close>
    and \<open>codes s (fst w) = 404\<close>
    and \<open>Header_Get (Header_of (iface w) s) ''Content-Length'' = ''0''\<close>
    and \<open>Referer r = []\<close> and \<open>UserAgent r = ''curl''\<close>
  shows \<open>map render (logged (logRequest w r st opts s))
           = map render (logged s) @
             [Some ''127.0.0.1 - - [2024-01-01T00:00:00Z] "POST /a HTTP/1.1" 404 0 "" "curl"'']\<close>
proof -
  have \<open>logged (logRequest w r st opts s) = logged s @
          [\<lparr>sink = (case Logger opts of None \<Rightarrow> StdLogger | Some l \<Rightarrow> OptsLogger l),
            format = ''%s - - [%s] "%s %s HTTP/%s" %d %s "%s" "%s"'',
            args = [VString ''127.0.0.1'', VString ''2024-01-01T00:00:00Z'', VString ''POST'',
                    VString ''/a'', VString ''1.1'', VInt 404, VString ''0'', VString [],
                    VString ''curl'']\<rparr>]\<close>
    using assms
    by (simp add: logRequest_eq predef_default default_args Ldefault_def itoa_1
          del: tokenArgs.simps)
  then show ?thesis
    by (simp add: render_def Sprintf_default del: Sprintf.simps)
qed

theorem default_line_witness:
  \<open>map render (logged (logRequest (0, Plain 0) sample_post 1700000000000000000
      (NewLogOptions None Ldefault [])
      (sample_world\<lparr>codes := (\<lambda>a. 404), headers := (\<lambda>n. [''Content-Length'' \<mapsto> [''0'']])\<rparr>)))
     = [Some ''127.0.0.1 - - [2024-01-01T00:00:00Z] "POST /a HTTP/1.1" 404 0 "" "curl"'']\<close>
proof -
  have cl: "CanonicalMIMEHeaderKey ''Content-Length'' = ''Content-Length''"
    and rf: "CanonicalMIMEHeaderKey ''Referer'' = ''Referer''"
    and ua: "CanonicalMIMEHeaderKey ''User-Agent'' = ''User-Agent''"
    by code_simp+
  have \<open>map render (logged (logRequest (0, Plain 0) sample_post 1700000000000000000
      (NewLogOptions None Ldefault [])
      (sample_world\<lparr>codes := (\<lambda>a. 404), headers := (\<lambda>n. [''Content-Length'' \<mapsto> [''0'']])\<rparr>)))
     = map render (logged (sample_world\<lparr>codes := (\<lambda>a. 404),
                      headers := (\<lambda>n. [''Content-Length'' \<mapsto> [''0'']])\<rparr>))
         @ [Some ''127.0.0.1 - - [2024-01-01T00:00:00Z] "POST /a HTTP/1.1" 404 0 "" "curl"'']\<close>
    by (rule default_line)
       (simp_all add: NewLogOptions_def sample_post_def sample_world_def iface_def Header_Get_def
          Referer_def UserAgent_def cl rf ua)
  then show ?thesis
    by (simp add: sample_world_def)
qed

text \<open>
  C5. A token that is none of the names of the switch, does not match the header pattern
  and has no function in the custom tokens (no entry, or a nil one) resolves to the
  placeholder \<open>?\<close> and changes nothing. In a token list it fills its own position with \<open>?\<close>
  while the tokens before it and after it resolve exactly as they do without it, and
  \<open>logRequest\<close> emits the line: one entry is added to the log, with these arguments.
\<close>

theorem unknown_token:
  assumes "t \<notin> set switchTokens" and "rxHeaders_FindStringSubmatch t = []"
    and "CustomTokens opts t = None \<or> CustomTokens opts t = Some None"
  shows "tokenArg t w r st opts s = (VString ''?'', s) \<and>
         tokenArgs (xs @ t # ys) w r st opts s =
           (fst (tokenArgs xs w r st opts s) @ VString ''?'' #
              fst (tokenArgs ys w r st opts (snd (tokenArgs xs w r st opts s))),
            snd (tokenArgs ys w r st opts (snd (tokenArgs xs w r st opts s)))) \<and>
         (predefFormats (Format opts) = None \<and> Tokens opts = xs @ t # ys \<longrightarrow>
            logged (logRequest w r st opts s) = logged s @
              [\<lparr>sink = (case Logger opts of None \<Rightarrow> StdLogger | Some l \<Rightarrow> OptsLogger l),
                format = Format opts,
                args = fst (tokenArgs xs w r st opts s) @ VString ''?'' #
                  fst (tokenArgs ys w r st opts (snd (tokenArgs xs w r st opts s)))\<rparr>])"
proof -
  from assms(1,2) have "getPredefinedTokenValue t w r st opts s' = (None, s')" for s'
    by (simp add: getPredefinedTokenValue_def switchTokens_def)
  with assms(3) have one: "tokenArg t w r st opts s' = (VString ''?'', s')" for s'
    by (auto simp add: tokenArg_def)
  have many: "tokenArgs (xs @ t # ys) w r st opts s =
           (fst (tokenArgs xs w r st opts s) @ VString ''?'' #
              fst (tokenArgs ys w r st opts (snd (tokenArgs xs w r st opts s))),
            snd (tokenArgs ys w r st opts (snd (tokenArgs xs w r st opts s))))"
    by (simp add: tokenArgs_append one case_prod_unfold Let_def)
  show ?thesis
    by (simp add: one many logRequest_eq del: tokenArgs.simps)
qed


theorem unknown_token_witness:
  "tokenArg ''nope'' (0, Plain 0) sample_get 0 sample_opts sample_world
     = (VString ''?'', sample_world) \<and>
   map args (logged (logRequest (0, Plain 0) sample_get 0 sample_opts sample_world))
     = [[VString ''GET'', VString ''?'', VInt 0]]"
proof -
  have nosw: "''nope'' \<notin> set switchTokens"
    by (simp add: switchTokens_def)
  have norx: "rxHeaders_FindStringSubmatch ''nope'' = []"
    by code_simp
  have nocu: "CustomTokens sample_opts ''nope'' = None \<or> CustomTokens sample_opts ''nope'' = Some None"
    by (simp add: sample_opts_def NewLogOptions_def)
  have lit: "predefFormats (Format sample_opts) = None"
    by (simp add: sample_opts_def NewLogOptions_def predefFormats_def Ldefault_def Lshort_def
          Ltiny_def)
  have toks: "Tokens sample_opts = [''method''] @ ''nope'' # [''status'']"
    by (simp add: sample_opts_def NewLogOptions_def)
  from unknown_token [OF nosw norx nocu, of "(0, Plain 0)" sample_get 0 sample_world
                        "[''method'']" "[''status'']"] lit toks
  have "tokenArg ''nope'' (0, Plain 0) sample_get 0 sample_opts sample_world
          = (VString ''?'', sample_world)"
    and "logged (logRequest (0, Plain 0) sample_get 0 sample_opts sample_world)
          = logged sample_world @
              [\<lparr>sink = (case Logger sample_opts of None \<Rightarrow> StdLogger | Some l \<Rightarrow> OptsLogger l),
                format = Format sample_opts,
                args = fst (tokenArgs [''method''] (0, Plain 0) sample_get 0 sample_opts sample_world)
                  @ VString ''?'' #
                  fst (tokenArgs [''status''] (0, Plain 0) sample_get 0 sample_opts
                        (snd (tokenArgs [''method''] (0, Plain 0) sample_get 0 sample_opts
                                sample_world)))\<rparr>]"
    by blast+
  then show ?thesis
    by (simp add: tok_method tok_status sample_world_def sample_get_def)
qed

text \<open>
  C6. When the format of the options is none of the three predefined identifiers,
  \<open>logRequest\<close> hands the format string to the logger as it is, with the arguments resolved
  from the tokens of the options, in their order. Nothing else differs: the call returns,
  one entry goes to the same logger, and the world is otherwise only advanced by the
  readings of the clock that the tokens make.
\<close>

theorem literal_format:
  assumes "Format opts \<noteq> Ldefault" and "Format opts \<noteq> Lshort" and "Format opts \<noteq> Ltiny"
  shows "logRequest w r st opts s =
           s\<lparr>ticks := ticks s + sum_list (map readings (Tokens opts)),
             logged := logged s @
               [\<lparr>sink = (case Logger opts of None \<Rightarrow> StdLogger | Some l \<Rightarrow> OptsLogger l),
                 format = Format opts,
                 args = fst (tokenArgs (Tokens opts) w r st opts s)\<rparr>]\<rparr>"
proof -
  from assms have "predefFormats (Format opts) = None"
    by (simp add: predefFormats_def)
  then show ?thesis
    by (simp add: logRequest_eq Let_def)
qed

theorem literal_format_witness:
  "logged (logRequest (0, Plain 0) sample_get 0 sample_opts sample_world)
     = [\<lparr>sink = OptsLogger 7, format = ''%s %s -> %d'',
         args = [VString ''GET'', VString ''?'', VInt 0]\<rparr>]"
proof -
  have ne: "Format sample_opts \<noteq> Ldefault" "Format sample_opts \<noteq> Lshort"
    "Format sample_opts \<noteq> Ltiny"
    by (simp_all add: sample_opts_def NewLogOptions_def Ldefault_def Lshort_def Ltiny_def)
  have nope: "tokenArg ''nope'' w r st sample_opts s = (VString ''?'', s)" for w r st s
    by (simp add: tokenArg_def getPredefinedTokenValue_def sample_opts_def NewLogOptions_def
          rxHeaders_FindStringSubmatch_def)
  have "logged (logRequest (0, Plain 0) sample_get 0 sample_opts sample_world)
          = logged sample_world @
              [\<lparr>sink = (case Logger sample_opts of None \<Rightarrow> StdLogger | Some l \<Rightarrow> OptsLogger l),
                format = Format sample_opts,
                args = fst (tokenArgs (Tokens sample_opts) (0, Plain 0) sample_get 0 sample_opts
                              sample_world)\<rparr>]"
    by (simp add: literal_format [OF ne])
  moreover have "Tokens sample_opts = [''method'', ''nope'', ''status'']"
    "Format sample_opts = ''%s %s -> %d''" "Logger sample_opts = Some 7"
    by (simp_all add: sample_opts_def NewLogOptions_def)
  ultimately show ?thesis
    by (simp add: tok_method tok_status nope sample_world_def sample_get_def)
qed

section \<open>Properties of the logging handler\<close>

lemma GetResponseWriter_sat: "GetResponseWriter w p = Some x \<Longrightarrow> p x"
  by (induction w) (auto split: if_splits)

lemma GetResponseWriter_status:
  "GetResponseWriter w is_statusResponseWriter = None \<longleftrightarrow> cells w = {}"
  by (induction w) simp_all

lemma getStatusWriter_no_panic: "getStatusWriter w \<noteq> Inl pn"
proof (cases "GetResponseWriter w is_statusResponseWriter")
  case None
  then show ?thesis by (simp add: getStatusWriter_def)
next
  case (Some x)
  then have "is_statusResponseWriter x" by (rule GetResponseWriter_sat)
  with Some show ?thesis
    by (cases x) (simp_all add: getStatusWriter_def)
qed

lemma getStatusWriter_None: "getStatusWriter w = Inr None \<longleftrightarrow> cells w = {}"
proof (cases "GetResponseWriter w is_statusResponseWriter")
  case None
  then show ?thesis
    using GetResponseWriter_status [of w] by (simp add: getStatusWriter_def)
next
  case (Some x)
  then have "is_statusResponseWriter x" by (rule GetResponseWriter_sat)
  with Some show ?thesis
    using GetResponseWriter_status [of w]
    by (cases x) (simp_all add: getStatusWriter_def)
qed

lemma getStatusWriter_found:
  "cells w \<noteq> {} \<Longrightarrow> \<exists>found. getStatusWriter w = Inr (Some found)"
proof -
  assume ne: "cells w \<noteq> {}"
  show ?thesis
  proof (cases "getStatusWriter w")
    case (Inl pn)
    then show ?thesis by (simp add: getStatusWriter_no_panic)
  next
    case (Inr res)
    with ne getStatusWriter_None [of w] show ?thesis
      by (cases res) simp_all
  qed
qed

lemma LogHandler_found: "cells w \<noteq> {} \<Longrightarrow> LogHandler h opts w r s = h w r s"
  using getStatusWriter_found [of w] by (auto simp add: LogHandler_def)

lemma LogHandler_install:
  "cells w = {} \<Longrightarrow>
   LogHandler h opts w r s =
     (let stw = (next_addr s, w);
          s2 = s\<lparr>ticks := Suc (ticks s), codes := (codes s)(next_addr s := 0),
                 next_addr := Suc (next_addr s)\<rparr>
      in if Immediate opts
         then h (iface stw) r (logRequest stw r (clock s (ticks s)) opts s2)
         else (fst (h (iface stw) r s2),
               logRequest stw r (clock s (ticks s)) opts (snd (h (iface stw) r s2))))"
  using getStatusWriter_None [of w]
  by (simp add: LogHandler_def time_Now_def new_statusResponseWriter_def Let_def
        case_prod_unfold)

lemma cells_iface: "cells (iface stw) \<noteq> {}"
  by (simp add: iface_def)

text \<open>
  C1. For every handler \<open>h\<close>, every request and every writer, \<open>LogHandler\<close> applied to
  \<open>LogHandler h\<close> does what \<open>LogHandler\<close> applied to \<open>h\<close> does. When the chain of the
  incoming writer already contains a \<open>statusResponseWriter\<close>, \<open>LogHandler\<close> passes the
  writer, the request and the world on to the wrapped handler as they are: it builds no
  wrapper and logs nothing. When the chain contains none and the wrapped handler writes
  nothing to the log itself, the nested application leaves exactly one more line in the
  log, not two.
\<close>

theorem LogHandler_nested:
  "LogHandler (LogHandler h opts') opts w r s = LogHandler h opts w r s \<and>
   (cells w \<noteq> {} \<longrightarrow> LogHandler h opts w r s = h w r s) \<and>
   (cells w = {} \<and> (\<forall>w' r' s'. logged (snd (h w' r' s')) = logged s') \<longrightarrow>
      length (logged (snd (LogHandler (LogHandler h opts') opts w r s)))
        = Suc (length (logged s)))"
proof -
  have forward: "LogHandler h opts' (iface stw) r' s' = h (iface stw) r' s'" for stw r' s'
    by (rule LogHandler_found) (rule cells_iface)
  have nested: "LogHandler (LogHandler h opts') opts w r s = LogHandler h opts w r s"
  proof (cases "cells w = {}")
    case True
    then show ?thesis
      by (simp add: LogHandler_install forward Let_def)
  next
    case False
    then show ?thesis
      by (simp add: LogHandler_found)
  qed
  have once: "length (logged (snd (LogHandler h opts w r s))) = Suc (length (logged s))"
    if "cells w = {}" and quiet: "\<forall>w' r' s'. logged (snd (h w' r' s')) = logged s'"
    using that by (simp add: LogHandler_install logRequest_eq Let_def)
  show ?thesis
    using nested once by (simp add: LogHandler_found)
qed


lemma logged_WriteHeader: "logged (WriteHeader x c s) = logged s"
  by (induction x arbitrary: s) simp_all

lemma logged_Write: "logged (snd (Write x d s)) = logged s"
  by (induction x arbitrary: s) simp_all

lemma sample_handler_run:
  "LogHandler sample_handler (NewLogOptions None Ltiny []) (Plain 0) sample_get sample_world
     = (Returned,
        sample_world\<lparr>ticks := 2, codes := (codes sample_world)(0 := 404), next_addr := 1,
          calls := [(0, CallWriteHeader 404), (0, CallWrite ''not found'')],
          logged := [\<lparr>sink = StdLogger, format = ''%s %s %d %s - %.3f s'',
                      args = [VString ''GET'', VString ''/x'', VInt 404, VString ''5'',
                              VFloat (Seconds 2000000)]\<rparr>]\<rparr>)"
proof -
  have cl: "CanonicalMIMEHeaderKey ''Content-Length'' = ''Content-Length''"
    by code_simp
  show ?thesis
    by (simp add: LogHandler_install sample_handler_def NewLogOptions_def logRequest_eq
          Ltiny_def predef_tiny tiny_args sample_world_def sample_get_def iface_def
          Header_Get_def cl Sub_def StatusOK_def Let_def readings_def
          del: tokenArgs.simps)
qed

lemma Sprintf_tiny_404: "Sprintf ''%s %s %d %s - %.3f s''
   [VString ''GET'', VString ''/x'', VInt 404, VString ''5'', VFloat (Seconds 2000000)]
    = Some ''GET /x 404 5 - 0.002 s''"
  by code_simp

theorem LogHandler_nested_witness:
  "cells (Plain 0) = {} \<and>
   map render (logged (snd (LogHandler (LogHandler sample_handler sample_opts)
       (NewLogOptions None Ltiny []) (Plain 0) sample_get sample_world)))
     = [Some ''GET /x 404 5 - 0.002 s''] \<and>
   length (logged (snd (LogHandler (LogHandler sample_handler sample_opts)
       (NewLogOptions None Ltiny []) (Plain 0) sample_get sample_world))) = 1 \<and>
   cells (StatusW 0 (Plain 0)) \<noteq> {} \<and>
   LogHandler sample_handler sample_opts (StatusW 0 (Plain 0)) sample_get sample_world
     = sample_handler (StatusW 0 (Plain 0)) sample_get sample_world"
proof -
  have quiet: "\<forall>w' r' s'. logged (snd (sample_handler w' r' s')) = logged s'"
    by (simp add: sample_handler_def logged_Write logged_WriteHeader)
  have empty: "cells (Plain 0) = {}" and full: "cells (StatusW 0 (Plain 0)) \<noteq> {}"
    by simp_all
  from LogHandler_nested [of sample_handler sample_opts "NewLogOptions None Ltiny []"
         "Plain 0" sample_get sample_world] quiet empty
  have "LogHandler (LogHandler sample_handler sample_opts) (NewLogOptions None Ltiny [])
          (Plain 0) sample_get sample_world
        = LogHandler sample_handler (NewLogOptions None Ltiny []) (Plain 0) sample_get
            sample_world"
    and "length (logged (snd (LogHandler (LogHandler sample_handler sample_opts)
           (NewLogOptions None Ltiny []) (Plain 0) sample_get sample_world)))
         = Suc (length (logged sample_world))"
    by blast+
  moreover
  from LogHandler_nested [of sample_handler sample_opts sample_opts "StatusW 0 (Plain 0)"
         sample_get sample_world] full
  have "LogHandler sample_handler sample_opts (StatusW 0 (Plain 0)) sample_get sample_world
          = sample_handler (StatusW 0 (Plain 0)) sample_get sample_world"
    by blast
  ultimately show ?thesis
    by (simp add: sample_handler_run render_def Sprintf_tiny_404 del: Sprintf.simps)
qed

text \<open>
  C7. Let \<open>LogHandler\<close> find no \<open>statusResponseWriter\<close> in the chain, so that it installs
  one, with code 0, after reading the start time. If \<open>Immediate\<close> is false, the wrapped
  handler runs first, on the world with the fresh writer; whatever its outcome, a return or
  a panic, that outcome is the outcome of \<open>LogHandler\<close>, and \<open>logRequest\<close> runs once on
  the world the handler left: the log is the log as the handler left it and one more
  entry. If \<open>Immediate\<close> is true, \<open>logRequest\<close> runs once before the handler, which starts
  from the world that \<open>logRequest\<close> left and whose result is the result of \<open>LogHandler\<close>;
  the entry is computed before the handler has done anything, so its status is 0.
\<close>

theorem LogHandler_logs_once:
  assumes "getStatusWriter w = Inr None"
  shows "let stw = (next_addr s, w); st = clock s (ticks s);
             s2 = s\<lparr>ticks := Suc (ticks s), codes := (codes s)(next_addr s := 0),
                    next_addr := Suc (next_addr s)\<rparr>
         in (\<not> Immediate opts \<longrightarrow>
               fst (LogHandler h opts w r s) = fst (h (iface stw) r s2) \<and>
               snd (LogHandler h opts w r s)
                 = logRequest stw r st opts (snd (h (iface stw) r s2)) \<and>
               logged (snd (LogHandler h opts w r s))
                 = logged (snd (h (iface stw) r s2)) @
                   [last (logged (logRequest stw r st opts (snd (h (iface stw) r s2))))]) \<and>
            (Immediate opts \<longrightarrow>
               LogHandler h opts w r s = h (iface stw) r (logRequest stw r st opts s2) \<and>
               logged (logRequest stw r st opts s2)
                 = logged s @ [last (logged (logRequest stw r st opts s2))] \<and>
               tokenArg ''status'' stw r st opts s2 = (VInt 0, s2))"
proof -
  from assms have "cells w = {}"
    by (simp add: getStatusWriter_None)
  then show ?thesis
    by (simp add: LogHandler_install Let_def logRequest_eq tok_status)
qed

lemma sample_panic_run:
  "LogHandler sample_panic (NewLogOptions None Ltiny []) (Plain 0) sample_get sample_world
     = (Panicked,
        sample_world\<lparr>ticks := 2, codes := (codes sample_world)(0 := 500), next_addr := 1,
          calls := [(0, CallWriteHeader 500)],
          logged := [\<lparr>sink = StdLogger, format = ''%s %s %d %s - %.3f s'',
                      args = [VString ''GET'', VString ''/x'', VInt 500, VString ''5'',
                              VFloat (Seconds 2000000)]\<rparr>]\<rparr>)"
proof -
  have cl: "CanonicalMIMEHeaderKey ''Content-Length'' = ''Content-Length''"
    by code_simp
  show ?thesis
    by (simp add: LogHandler_install sample_panic_def NewLogOptions_def logRequest_eq
          Ltiny_def predef_tiny tiny_args sample_world_def sample_get_def iface_def
          Header_Get_def cl Sub_def StatusOK_def Let_def readings_def
          del: tokenArgs.simps)
qed

lemma sample_immediate_run:
  "LogHandler sample_handler ((NewLogOptions None Ltiny [])\<lparr>Immediate := True\<rparr>) (Plain 0)
       sample_get sample_world
     = (Returned,
        sample_world\<lparr>ticks := 2, codes := (codes sample_world)(0 := 404), next_addr := 1,
          calls := [(0, CallWriteHeader 404), (0, CallWrite ''not found'')],
          logged := [\<lparr>sink = StdLogger, format = ''%s %s %d %s - %.3f s'',
                      args = [VString ''GET'', VString ''/x'', VInt 0, VString ''5'',
                              VFloat (Seconds 2000000)]\<rparr>]\<rparr>)"
proof -
  have cl: "CanonicalMIMEHeaderKey ''Content-Length'' = ''Content-Length''"
    by code_simp
  show ?thesis
    by (simp add: LogHandler_install sample_handler_def NewLogOptions_def logRequest_eq
          Ltiny_def predef_tiny tiny_args sample_world_def sample_get_def iface_def
          Header_Get_def cl Sub_def StatusOK_def Let_def readings_def
          del: tokenArgs.simps)
qed

lemma Sprintf_tiny_500: "Sprintf ''%s %s %d %s - %.3f s''
   [VString ''GET'', VString ''/x'', VInt 500, VString ''5'', VFloat (Seconds 2000000)]
    = Some ''GET /x 500 5 - 0.002 s''"
  by code_simp

lemma Sprintf_tiny_0: "Sprintf ''%s %s %d %s - %.3f s''
   [VString ''GET'', VString ''/x'', VInt 0, VString ''5'', VFloat (Seconds 2000000)]
    = Some ''GET /x 0 5 - 0.002 s''"
  by code_simp

theorem LogHandler_logs_once_witness:
  "getStatusWriter (Plain 0) = Inr None \<and>
   \<not> Immediate (NewLogOptions None Ltiny []) \<and>
   fst (LogHandler sample_panic (NewLogOptions None Ltiny []) (Plain 0) sample_get sample_world)
     = fst (sample_panic (StatusW 0 (Plain 0)) sample_get
             (sample_world\<lparr>ticks := 1, codes := (codes sample_world)(0 := 0), next_addr := 1\<rparr>)) \<and>
   fst (LogHandler sample_panic (NewLogOptions None Ltiny []) (Plain 0) sample_get sample_world)
     = Panicked \<and>
   map render (logged (snd (LogHandler sample_panic (NewLogOptions None Ltiny []) (Plain 0)
       sample_get sample_world))) = [Some ''GET /x 500 5 - 0.002 s''] \<and>
   Immediate ((NewLogOptions None Ltiny [])\<lparr>Immediate := True\<rparr>) \<and>
   LogHandler sample_handler ((NewLogOptions None Ltiny [])\<lparr>Immediate := True\<rparr>) (Plain 0)
       sample_get sample_world
     = sample_handler (StatusW 0 (Plain 0)) sample_get
         (logRequest (0, Plain 0) sample_get (clock sample_world 0)
            ((NewLogOptions None Ltiny [])\<lparr>Immediate := True\<rparr>)
            (sample_world\<lparr>ticks := 1, codes := (codes sample_world)(0 := 0), next_addr := 1\<rparr>)) \<and>
   map render (logged (snd (LogHandler sample_handler
       ((NewLogOptions None Ltiny [])\<lparr>Immediate := True\<rparr>) (Plain 0) sample_get sample_world)))
     = [Some ''GET /x 0 5 - 0.002 s'']"
proof -
  have none: "getStatusWriter (Plain 0) = Inr None"
    by (simp add: getStatusWriter_def)
  have deferred: "\<not> Immediate (NewLogOptions None Ltiny [])"
    and immediate: "Immediate ((NewLogOptions None Ltiny [])\<lparr>Immediate := True\<rparr>)"
    by (simp_all add: NewLogOptions_def)
  have start: "next_addr sample_world = 0" "ticks sample_world = 0"
    by (simp_all add: sample_world_def)
  from LogHandler_logs_once [OF none, of sample_world "NewLogOptions None Ltiny []"
         sample_panic sample_get] deferred
  have "fst (LogHandler sample_panic (NewLogOptions None Ltiny []) (Plain 0) sample_get
               sample_world)
          = fst (sample_panic (StatusW 0 (Plain 0)) sample_get
                  (sample_world\<lparr>ticks := 1, codes := (codes sample_world)(0 := 0),
                     next_addr := 1\<rparr>))"
    by (simp add: Let_def start iface_def)
  moreover
  from LogHandler_logs_once [OF none, of sample_world
         "(NewLogOptions None Ltiny [])\<lparr>Immediate := True\<rparr>" sample_handler sample_get]
       immediate
  have "LogHandler sample_handler ((NewLogOptions None Ltiny [])\<lparr>Immediate := True\<rparr>) (Plain 0)
          sample_get sample_world
        = sample_handler (StatusW 0 (Plain 0)) sample_get
            (logRequest (0, Plain 0) sample_get (clock sample_world 0)
               ((NewLogOptions None Ltiny [])\<lparr>Immediate := True\<rparr>)
               (sample_world\<lparr>ticks := 1, codes := (codes sample_world)(0 := 0),
                  next_addr := 1\<rparr>))"
    by (simp add: Let_def start iface_def)
  moreover
  have "fst (LogHandler sample_panic (NewLogOptions None Ltiny []) (Plain 0) sample_get
               sample_world) = Panicked"
    and "map render (logged (snd (LogHandler sample_panic (NewLogOptions None Ltiny [])
           (Plain 0) sample_get sample_world))) = [Some ''GET /x 500 5 - 0.002 s'']"
    by (simp_all add: sample_panic_run render_def Sprintf_tiny_500 del: Sprintf.simps)
  moreover
  have "map render (logged (snd (LogHandler sample_handler
       ((NewLogOptions None Ltiny [])\<lparr>Immediate := True\<rparr>) (Plain 0) sample_get sample_world)))
     = [Some ''GET /x 0 5 - 0.002 s'']"
    by (simp add: sample_immediate_run render_def Sprintf_tiny_0 del: Sprintf.simps)
  ultimately show ?thesis
    using none deferred immediate by blast
qed

end
